theory Spec2Isabelle
  imports Main
begin

section \<open>The OCI machine driver: data model\<close>

text \<open>
  The driver (\<^verbatim>\<open>pkg/drivers/oci/oci.go\<close>) adapts the machine lifecycle interface to
  the OCI SDK; the client (\<^verbatim>\<open>part_000\<close>) wraps the SDK's compute, network and identity
  clients. A Go \<^verbatim>\<open>error\<close> is a message; the \<^verbatim>\<open>nil\<close> error is \<open>None\<close>. A Go
  function that returns \<^verbatim>\<open>(v, err)\<close> returns the pair here, because the code returns
  pairs that a sum type cannot hold (a zero value with a nil error). A \<^verbatim>\<open>*string\<close> is a
  \<open>string option\<close>, and reading through a nil pointer is a \<open>Panic\<close>.
\<close>

datatype error = Error (Error_msg: string)

datatype 'a exec = Return 'a | Panic string

definition nilDereference :: string where
  "nilDereference = ''invalid memory address or nil pointer dereference''"

subsection \<open>Strings (package strings, fmt)\<close>

text \<open>
  Go strings are byte strings, and \<^verbatim>\<open>strings.Contains\<close> compares bytes.
  \<^verbatim>\<open>strings.ToUpper\<close> and \<^verbatim>\<open>strings.EqualFold\<close> work on Unicode characters; they are
  not written out here but taken from the environment (the fields \<open>ToUpper\<close> and
  \<open>EqualFold\<close> of the record \<open>SDK\<close> below), so that what is proved of the code
  holds for the functions of the Go library, whatever they answer on a given string.
\<close>

fun Contains :: "string \<Rightarrow> string \<Rightarrow> bool" where
  "Contains [] substr = (substr = [])"
| "Contains (ch # s) substr =
     (take (length substr) (ch # s) = substr \<or> Contains s substr)"

text \<open>The verb \<^verbatim>\<open>%d\<close> of \<^verbatim>\<open>fmt.Sprintf\<close>.\<close>

fun digits :: "nat \<Rightarrow> nat \<Rightarrow> string" where
  "digits 0 n = []"
| "digits (Suc fuel) n =
     (if n < 10 then [char_of (48 + n)]
      else digits fuel (n div 10) @ [char_of (48 + n mod 10)])"

definition formatInt :: "int \<Rightarrow> string" where
  "formatInt i =
     (if i < 0 then CHR ''-'' # digits (Suc (nat (- i))) (nat (- i))
      else digits (Suc (nat i)) (nat i))"

text \<open>\<^verbatim>\<open>strings.Join\<close> and the standard base64 encoding with padding.\<close>

fun Join :: "string list \<Rightarrow> string \<Rightarrow> string" where
  "Join [] sep = []"
| "Join [s] sep = s"
| "Join (s # t # rest) sep = s @ sep @ Join (t # rest) sep"

definition encodeStd :: string where
  "encodeStd = ''ABCDEFGHIJKLMNOPQRSTUVWXYZabcdefghijklmnopqrstuvwxyz0123456789+/''"

definition sextet :: "nat \<Rightarrow> char" where
  "sextet n = encodeStd ! (n mod 64)"

fun EncodeToString :: "string \<Rightarrow> string" where
  "EncodeToString (a # b # c # rest) =
     (let x = (of_char a :: nat); y = (of_char b :: nat); z = (of_char c :: nat) in
      [sextet (x div 4), sextet ((x mod 4) * 16 + y div 16),
       sextet ((y mod 16) * 4 + z div 64), sextet z] @ EncodeToString rest)"
| "EncodeToString [a, b] =
     (let x = (of_char a :: nat); y = (of_char b :: nat) in
      [sextet (x div 4), sextet ((x mod 4) * 16 + y div 16), sextet ((y mod 16) * 4),
       CHR ''=''])"
| "EncodeToString [a] =
     (let x = (of_char a :: nat) in
      [sextet (x div 4), sextet ((x mod 4) * 16), CHR ''='', CHR ''=''])"
| "EncodeToString [] = []"

subsection \<open>Constants of the driver (oci.go, lines 22 to 29)\<close>

definition defaultNodeNamePfx :: string where "defaultNodeNamePfx = ''oci-node-driver-''"
definition defaultSSHPort :: int where "defaultSSHPort = 22"
definition defaultSSHUser :: string where "defaultSSHUser = ''opc''"
definition defaultImage :: string where "defaultImage = ''Oracle-Linux-7.7''"
definition defaultDockerPort :: int where "defaultDockerPort = 2376"

subsection \<open>The driver's configuration and runtime state\<close>

text \<open>The first five fields are those of the embedded \<^verbatim>\<open>drivers.BaseDriver\<close>.\<close>

record Driver =
  IPAddress :: string
  MachineName :: string
  SSHUser :: string
  SSHPort :: int
  StorePath :: string
  AvailabilityDomain :: string
  DockerPort :: int
  Fingerprint :: string
  Image :: string
  NodeCompartmentID :: string
  PrivateKeyContents :: string
  PrivateKeyPassphrase :: string
  PrivateKeyPath :: string
  Region :: string
  Shape :: string
  SubnetID :: string
  TenancyID :: string
  UserID :: string
  VCNCompartmentID :: string
  VCNID :: string
  IsRover :: bool
  RoverComputeEndpoint :: string
  RoverNetworkEndpoint :: string
  RoverCertPath :: string
  RoverCertContent :: string
  InstanceID :: string

subsection \<open>SDK values\<close>

text \<open>
  The lifecycle state of an instance is a string enumeration of the SDK
  (\<^verbatim>\<open>core.InstanceLifecycleStateEnum\<close>): the provider may send a value the SDK has no
  constant for.
\<close>

definition InstanceLifecycleStateProvisioning :: string where
  "InstanceLifecycleStateProvisioning = ''PROVISIONING''"
definition InstanceLifecycleStateRunning :: string where
  "InstanceLifecycleStateRunning = ''RUNNING''"
definition InstanceLifecycleStateStarting :: string where
  "InstanceLifecycleStateStarting = ''STARTING''"
definition InstanceLifecycleStateStopping :: string where
  "InstanceLifecycleStateStopping = ''STOPPING''"
definition InstanceLifecycleStateStopped :: string where
  "InstanceLifecycleStateStopped = ''STOPPED''"
definition InstanceLifecycleStateCreatingImage :: string where
  "InstanceLifecycleStateCreatingImage = ''CREATING_IMAGE''"
definition InstanceLifecycleStateTerminating :: string where
  "InstanceLifecycleStateTerminating = ''TERMINATING''"
definition InstanceLifecycleStateTerminated :: string where
  "InstanceLifecycleStateTerminated = ''TERMINATED''"

text \<open>The machine states of \<^verbatim>\<open>libmachine/state\<close>; \<open>StateNone\<close> is \<^verbatim>\<open>state.None\<close>.\<close>

datatype State =
  StateNone | Running | Paused | Saved | Stopped | Stopping | Starting | StateError | Timeout

record core_Instance =
  Instance_Id :: "string option"
  Instance_LifecycleState :: string

text \<open>
  Of an image: the fields the code reads (\<^verbatim>\<open>Id\<close>, \<^verbatim>\<open>DisplayName\<close>) and the fields the
  listing request selects and sorts by.
\<close>

record core_Image =
  Image_Id :: "string option"
  Image_DisplayName :: "string option"
  Image_TimeCreated :: int
  Image_CompartmentId :: string
  Image_LifecycleState :: string

record AvailabilityDomain_item =
  AD_Name :: "string option"

record core_Vnic =
  PublicIp :: "string option"
  PrivateIp :: "string option"

record VnicAttachment =
  VnicId :: "string option"

text \<open>
  What a retry predicate sees of an operation's outcome: the response when it is a
  \<^verbatim>\<open>core.GetInstanceResponse\<close>, the HTTP status code and the error.
\<close>

record OCIOperationResponse =
  Response_GetInstance :: "core_Instance option"
  Response_StatusCode :: int
  Response_Error :: "error option"

datatype RequestMetadata =
    NoRetryPolicy
  | RetryPolicy (MaximumNumberAttempts: nat)
      (ShouldRetryOperation: "OCIOperationResponse \<Rightarrow> bool")
      (NextDuration: "OCIOperationResponse \<Rightarrow> nat")
  | CustomizedRetryPolicy "OCIOperationResponse \<Rightarrow> bool"

record ConfigurationProvider =
  cfg_tenancy :: string
  cfg_user :: string
  cfg_region :: string
  cfg_fingerprint :: string
  cfg_privateKey :: string
  cfg_privateKeyPassphrase :: string

text \<open>
  The SDK clients embed \<^verbatim>\<open>common.BaseClient\<close>: a host and an HTTP dispatcher, which is
  an \<^verbatim>\<open>*http.Client\<close> (with the root certificates of its transport, when patched) or
  something else.
\<close>

datatype HTTPRequestDispatcher = HttpClient (RootCAs: "string option") | OtherDispatcher

record BaseClient =
  Host :: string
  HTTPClient :: HTTPRequestDispatcher

record Client =
  configuration :: ConfigurationProvider
  computeClient :: BaseClient
  virtualNetworkClient :: BaseClient
  identityClient :: BaseClient
  sleepDuration :: nat

subsection \<open>Requests\<close>

record ListImagesRequest =
  li_CompartmentId :: "string option"
  li_SortBy :: string
  li_SortOrder :: string
  li_LifecycleState :: string
  li_RequestMetadata :: RequestMetadata
  li_Page :: "string option"

record ListImagesResponse =
  Items :: "core_Image list"
  OpcNextPage :: "string option"

record LaunchInstanceRequest =
  AvailabilityDomain_req :: "string option"
  CompartmentId_req :: "string option"
  Shape_req :: "string option"
  SubnetId_req :: "string option"
  AssignPublicIp_req :: "bool option"
  FaultDomain_req :: "string option"
  DisplayName_req :: "string option"
  Metadata_req :: "(string \<times> string) list"
  ImageId_req :: "string option"
  BootVolumeSizeInGBs_req :: "int option"
  IsMonitoringDisabled_req :: "bool option"

record GetInstanceRequest =
  gi_InstanceId :: "string option"
  gi_RequestMetadata :: RequestMetadata

datatype InstanceAction = ActionNone | ActionStop | ActionStart

record InstanceActionRequest =
  ia_InstanceId :: "string option"
  ia_Action :: InstanceAction

record ListVnicAttachmentsRequest =
  lv_InstanceId :: "string option"
  lv_CompartmentId :: "string option"

subsection \<open>The SDK and the library as an environment\<close>

text \<open>
  Every call to the SDK, to the file system included, is recorded in a trace. What a
  call answers may depend on the calls made before it, so each operation of the SDK
  takes the trace so far; a call made on a client takes the client too. The last two
  fields are the pure functions \<^verbatim>\<open>strings.ToUpper\<close> and \<^verbatim>\<open>strings.EqualFold\<close>.
\<close>

datatype call =
    CallNewComputeClient ConfigurationProvider
  | CallNewVirtualNetworkClient ConfigurationProvider
  | CallNewIdentityClient ConfigurationProvider
  | CallReadFile string
  | CallListAvailabilityDomains "string option"
  | CallListImages ListImagesRequest
  | CallLaunchInstance LaunchInstanceRequest
  | CallGetInstance GetInstanceRequest
  | CallInstanceAction InstanceActionRequest
  | CallTerminateInstance "string option"
  | CallListVnicAttachments ListVnicAttachmentsRequest
  | CallGetVnic "string option"

type_synonym trace = "call list"

record SDK =
  NewComputeClientWithConfigurationProvider ::
    "trace \<Rightarrow> ConfigurationProvider \<Rightarrow> error + BaseClient"
  NewVirtualNetworkClientWithConfigurationProvider ::
    "trace \<Rightarrow> ConfigurationProvider \<Rightarrow> error + BaseClient"
  NewIdentityClientWithConfigurationProvider ::
    "trace \<Rightarrow> ConfigurationProvider \<Rightarrow> error + BaseClient"
  ReadFile :: "trace \<Rightarrow> string \<Rightarrow> error + string"
  ListAvailabilityDomains ::
    "trace \<Rightarrow> BaseClient \<Rightarrow> string option \<Rightarrow> error + AvailabilityDomain_item list"
  ListImages :: "trace \<Rightarrow> BaseClient \<Rightarrow> ListImagesRequest \<Rightarrow> error + ListImagesResponse"
  LaunchInstance :: "trace \<Rightarrow> BaseClient \<Rightarrow> LaunchInstanceRequest \<Rightarrow> error + core_Instance"
  GetInstance_sdk :: "trace \<Rightarrow> BaseClient \<Rightarrow> GetInstanceRequest \<Rightarrow> error + core_Instance"
  InstanceAction_sdk ::
    "trace \<Rightarrow> BaseClient \<Rightarrow> InstanceActionRequest \<Rightarrow> error + core_Instance"
  TerminateInstance_sdk :: "trace \<Rightarrow> BaseClient \<Rightarrow> string option \<Rightarrow> error option"
  ListVnicAttachments ::
    "trace \<Rightarrow> BaseClient \<Rightarrow> ListVnicAttachmentsRequest \<Rightarrow> error + VnicAttachment list"
  GetVnic :: "trace \<Rightarrow> BaseClient \<Rightarrow> string option \<Rightarrow> error + core_Vnic"
  ToUpper :: "string \<Rightarrow> string"
  EqualFold :: "string \<Rightarrow> string \<Rightarrow> bool"

section \<open>The client\<close>

subsection \<open>newClient (part_000, lines 32 to 81) and initOCIClient (oci.go, lines 500 to 515)\<close>

definition patchTransport :: "BaseClient \<Rightarrow> string \<Rightarrow> BaseClient option" where
  "patchTransport cl pem =
     (case HTTPClient cl of
        HttpClient _ \<Rightarrow> Some (cl\<lparr>HTTPClient := HttpClient (Some pem)\<rparr>)
      | OtherDispatcher \<Rightarrow> None)"

definition cannotPatch :: string where
  "cannotPatch =
     ''the client dispatcher is not of http.Client type. can not patch the tls config''"

definition newIdentity ::
  "SDK \<Rightarrow> ConfigurationProvider \<Rightarrow> BaseClient \<Rightarrow> BaseClient \<Rightarrow> trace
     \<Rightarrow> (Client option \<times> error option) exec \<times> trace" where
  "newIdentity sdk cfg compute vNet tr =
     (case NewIdentityClientWithConfigurationProvider sdk tr cfg of
        Inl err \<Rightarrow> (Return (None, Some err), tr @ [CallNewIdentityClient cfg])
      | Inr identity \<Rightarrow>
          (Return (Some \<lparr>configuration = cfg, computeClient = compute,
                          virtualNetworkClient = vNet, identityClient = identity,
                          sleepDuration = 5\<rparr>, None),
           tr @ [CallNewIdentityClient cfg]))"

definition newClient ::
  "SDK \<Rightarrow> ConfigurationProvider \<Rightarrow> Driver \<Rightarrow> trace
     \<Rightarrow> (Client option \<times> error option) exec \<times> trace" where
  "newClient sdk cfg d tr =
     (case NewComputeClientWithConfigurationProvider sdk tr cfg of
        Inl err \<Rightarrow> (Return (None, Some err), tr @ [CallNewComputeClient cfg])
      | Inr compute \<Rightarrow>
          (let tr1 = tr @ [CallNewComputeClient cfg] in
           case NewVirtualNetworkClientWithConfigurationProvider sdk tr1 cfg of
             Inl err \<Rightarrow> (Return (None, Some err), tr1 @ [CallNewVirtualNetworkClient cfg])
           | Inr vNet \<Rightarrow>
               (let tr2 = tr1 @ [CallNewVirtualNetworkClient cfg] in
                if IsRover d then
                  (let compute' = compute\<lparr>Host := RoverComputeEndpoint d\<rparr>;
                       vNet' = vNet\<lparr>Host := RoverNetworkEndpoint d\<rparr>;
                       tr3 = tr2 @ [CallReadFile (RoverCertPath d)] in
                   case ReadFile sdk tr2 (RoverCertPath d) of
                     Inl err \<Rightarrow> (Panic (''can not read cert '' @ Error_msg err), tr3)
                   | Inr pem \<Rightarrow>
                       (case patchTransport compute' pem of
                          None \<Rightarrow> (Panic cannotPatch, tr3)
                        | Some compute'' \<Rightarrow>
                            (case patchTransport vNet' pem of
                               None \<Rightarrow> (Panic cannotPatch, tr3)
                             | Some vNet'' \<Rightarrow> newIdentity sdk cfg compute'' vNet'' tr3)))
                else newIdentity sdk cfg compute vNet tr2)))"

definition emptyBaseClient :: BaseClient where
  "emptyBaseClient = \<lparr>Host = [], HTTPClient = OtherDispatcher\<rparr>"

definition emptyClient :: Client where
  "emptyClient =
     \<lparr>configuration = \<lparr>cfg_tenancy = [], cfg_user = [], cfg_region = [],
                        cfg_fingerprint = [], cfg_privateKey = [],
                        cfg_privateKeyPassphrase = []\<rparr>,
      computeClient = emptyBaseClient, virtualNetworkClient = emptyBaseClient,
      identityClient = emptyBaseClient, sleepDuration = 0\<rparr>"

definition initOCIClient ::
  "SDK \<Rightarrow> Driver \<Rightarrow> trace \<Rightarrow> (Client \<times> error option) exec \<times> trace" where
  "initOCIClient sdk d tr =
     (let configurationProvider =
            \<lparr>cfg_tenancy = TenancyID d, cfg_user = UserID d, cfg_region = Region d,
             cfg_fingerprint = Fingerprint d, cfg_privateKey = PrivateKeyContents d,
             cfg_privateKeyPassphrase = PrivateKeyPassphrase d\<rparr> in
      case newClient sdk configurationProvider d tr of
        (Panic msg, tr') \<Rightarrow> (Panic msg, tr')
      | (Return (_, Some err), tr') \<Rightarrow> (Return (emptyClient, Some err), tr')
      | (Return (None, None), tr') \<Rightarrow> (Panic nilDereference, tr')
      | (Return (Some ociClient, None), tr') \<Rightarrow> (Return (ociClient, None), tr'))"

subsection \<open>GetInstance (part_000, lines 211 to 218)\<close>

definition emptyInstance :: core_Instance where
  "emptyInstance = \<lparr>Instance_Id = None, Instance_LifecycleState = []\<rparr>"

definition GetInstance ::
  "SDK \<Rightarrow> Client \<Rightarrow> string \<Rightarrow> trace \<Rightarrow> (core_Instance \<times> error option) \<times> trace" where
  "GetInstance sdk c ident tr =
     (let request = \<lparr>gi_InstanceId = Some ident, gi_RequestMetadata = NoRetryPolicy\<rparr> in
      case GetInstance_sdk sdk tr (computeClient c) request of
        Inl err \<Rightarrow> ((emptyInstance, Some err), tr @ [CallGetInstance request])
      | Inr instance \<Rightarrow> ((instance, None), tr @ [CallGetInstance request]))"

subsection \<open>createCloudInitScript (part_000, lines 321 to 345)\<close>

definition createCloudInitScript :: string where
  \<open>createCloudInitScript =
     Join
       [''#!/bin/sh'',
        ''#echo "Disabling OS firewall..."'',
        ''sudo /usr/sbin/ethtool --offload $(/usr/sbin/ip -o -4 route show to default | awk '{print $5}') tx off'',
        ''sudo iptables -F'',
        [],
        ''# Update to sellinux that fixes write permission error'',
        ''sudo yum install -y http://mirror.centos.org/centos/7/extras/x86_64/Packages/container-selinux-2.99-1.el7_6.noarch.rpm'',
        ''#sudo sed -i  s/SELINUX=enforcing/SELINUX=permissive/ /etc/selinux/config'',
        ''sudo setenforce 0'',
        ''sudo systemctl stop firewalld.service'',
        ''sudo systemctl disable firewalld.service'',
        [],
        ''echo "Installing Docker..."'',
        ''curl https://releases.rancher.com/install-docker/18.09.9.sh | sh'',
        ''sudo usermod -aG docker opc'',
        ''sudo systemctl enable docker'',
        [],
        ''# Elasticsearch requirement'',
        ''sudo sysctl -w vm.max_map_count=262144'']
       [CHR 0x0A]\<close>

subsection \<open>getImageID (part_000, lines 347 to 396)\<close>

definition ListImagesSortByTimecreated :: string where
  "ListImagesSortByTimecreated = ''TIMECREATED''"
definition ListImagesSortOrderDesc :: string where
  "ListImagesSortOrderDesc = ''DESC''"
definition ImageLifecycleStateAvailable :: string where
  "ImageLifecycleStateAvailable = ''AVAILABLE''"

text \<open>
  The request of one page. Its retry policy: at most three attempts, again on an error
  or a status outside 2xx, three seconds apart.
\<close>

definition listImagesRequest :: "string \<Rightarrow> string option \<Rightarrow> ListImagesRequest" where
  "listImagesRequest compartmentID page =
     \<lparr>li_CompartmentId = Some compartmentID,
      li_SortBy = ListImagesSortByTimecreated,
      li_SortOrder = ListImagesSortOrderDesc,
      li_LifecycleState = ImageLifecycleStateAvailable,
      li_RequestMetadata =
        RetryPolicy 3
          (\<lambda>r. \<not> (Response_Error r = None \<and> Response_StatusCode r div 100 = 2))
          (\<lambda>response. 3),
      li_Page = page\<rparr>"

text \<open>
  The inner loop over the items of a page (lines 383 to 388): \<open>None\<close> when the loop
  ends without a match, otherwise what the function returns from inside the loop, the
  \<^verbatim>\<open>Id\<close> pointer of the first match, or the panic of reading a nil display name.
\<close>

fun findImage :: "SDK \<Rightarrow> core_Image list \<Rightarrow> string \<Rightarrow> string option exec option" where
  "findImage sdk [] nodeImageName = None"
| "findImage sdk (img # rest) nodeImageName =
     (case Image_DisplayName img of
        None \<Rightarrow> Some (Panic nilDereference)
      | Some displayName \<Rightarrow>
          if EqualFold sdk displayName nodeImageName then Some (Return (Image_Id img))
          else findImage sdk rest nodeImageName)"

definition noSuchImage :: "string \<Rightarrow> error" where
  "noSuchImage nodeImageName =
     Error (''could not retrieve image id for an image named '' @ nodeImageName)"

text \<open>
  The outer loop has no bound: it ends at a match, at an error, or at a page without a
  next-page token. A run that never ends is \<open>None\<close>.
\<close>

partial_function (option) getImageID_pages ::
  "SDK \<Rightarrow> Client \<Rightarrow> string \<Rightarrow> string \<Rightarrow> string option \<Rightarrow> trace
     \<Rightarrow> ((string option \<times> error option) exec \<times> trace) option" where
  "getImageID_pages sdk c compartmentID nodeImageName page tr =
     (let request = listImagesRequest compartmentID page;
          tr' = tr @ [CallListImages request] in
      case ListImages sdk tr (computeClient c) request of
        Inl err \<Rightarrow> Some (Return (None, Some err), tr')
      | Inr r \<Rightarrow>
          (case findImage sdk (Items r) nodeImageName of
             Some (Panic msg) \<Rightarrow> Some (Panic msg, tr')
           | Some (Return ident) \<Rightarrow> Some (Return (ident, None), tr')
           | None \<Rightarrow>
               (case OpcNextPage r of
                  None \<Rightarrow> Some (Return (None, Some (noSuchImage nodeImageName)), tr')
                | Some next \<Rightarrow>
                    getImageID_pages sdk c compartmentID nodeImageName (Some next) tr')))"

declare getImageID_pages.simps [code]

definition getImageID ::
  "SDK \<Rightarrow> Client \<Rightarrow> string \<Rightarrow> string \<Rightarrow> trace
     \<Rightarrow> ((string option \<times> error option) exec \<times> trace) option" where
  "getImageID sdk c compartmentID nodeImageName tr =
     (if nodeImageName = [] \<or> compartmentID = [] then
        Some (Return (None,
                Some (Error ''cannot retrieve image ID without a compartment and image name'')),
              tr)
      else getImageID_pages sdk c compartmentID nodeImageName None tr)"

subsection \<open>createReqForOCi and createReqForRover (part_000, lines 133 to 209)\<close>

definition emptyLaunchInstanceRequest :: LaunchInstanceRequest where
  "emptyLaunchInstanceRequest =
     \<lparr>AvailabilityDomain_req = None, CompartmentId_req = None, Shape_req = None,
      SubnetId_req = None, AssignPublicIp_req = None, FaultDomain_req = None,
      DisplayName_req = None, Metadata_req = [], ImageId_req = None,
      BootVolumeSizeInGBs_req = None, IsMonitoringDisabled_req = None\<rparr>"

definition launchMetadata :: "string \<Rightarrow> (string \<times> string) list" where
  "launchMetadata authorizedKeys =
     [(''ssh_authorized_keys'', authorizedKeys),
      (''user_data'', EncodeToString createCloudInitScript)]"

text \<open>
  The loop over the listed domains (lines 143 to 148). It assigns to
  \<^verbatim>\<open>availabilityDomain\<close>, the variable its own test reads.
\<close>

fun resolveAvailabilityDomain ::
  "SDK \<Rightarrow> AvailabilityDomain_item list \<Rightarrow> string \<Rightarrow> string exec" where
  "resolveAvailabilityDomain sdk [] availabilityDomain = Return availabilityDomain"
| "resolveAvailabilityDomain sdk (ad # ads) availabilityDomain =
     (case AD_Name ad of
        None \<Rightarrow> Panic nilDereference
      | Some name \<Rightarrow>
          if Contains name (ToUpper sdk availabilityDomain)
          then resolveAvailabilityDomain sdk ads name
          else resolveAvailabilityDomain sdk ads availabilityDomain)"

definition createReqForOCi ::
  "SDK \<Rightarrow> Client \<Rightarrow> string \<Rightarrow> string \<Rightarrow> string \<Rightarrow> string \<Rightarrow> string \<Rightarrow> string \<Rightarrow> string
     \<Rightarrow> trace \<Rightarrow> ((error option \<times> LaunchInstanceRequest) exec \<times> trace) option" where
  "createReqForOCi sdk c displayName availabilityDomain compartmentID nodeShape
       nodeImageName nodeSubnetID authorizedKeys tr =
     (let tr1 = tr @ [CallListAvailabilityDomains (Some compartmentID)] in
      case ListAvailabilityDomains sdk tr (identityClient c) (Some compartmentID) of
        Inl err \<Rightarrow> Some (Return (None, emptyLaunchInstanceRequest), tr1)
      | Inr ads \<Rightarrow>
          (case resolveAvailabilityDomain sdk ads availabilityDomain of
             Panic msg \<Rightarrow> Some (Panic msg, tr1)
           | Return availabilityDomain' \<Rightarrow>
               (case getImageID sdk c compartmentID nodeImageName tr1 of
                  None \<Rightarrow> None
                | Some (Panic msg, tr2) \<Rightarrow> Some (Panic msg, tr2)
                | Some (Return (imageID, Some err), tr2) \<Rightarrow>
                    Some (Return (None, emptyLaunchInstanceRequest), tr2)
                | Some (Return (imageID, None), tr2) \<Rightarrow>
                    Some (Return (None,
                            \<lparr>AvailabilityDomain_req = Some availabilityDomain',
                             CompartmentId_req = Some compartmentID,
                             Shape_req = Some nodeShape,
                             SubnetId_req = Some nodeSubnetID,
                             AssignPublicIp_req = None,
                             FaultDomain_req = None,
                             DisplayName_req = Some displayName,
                             Metadata_req = launchMetadata authorizedKeys,
                             ImageId_req = imageID,
                             BootVolumeSizeInGBs_req = None,
                             IsMonitoringDisabled_req = None\<rparr>),
                          tr2))))"

definition createReqForRover ::
  "SDK \<Rightarrow> Client \<Rightarrow> string \<Rightarrow> string \<Rightarrow> string \<Rightarrow> string \<Rightarrow> string \<Rightarrow> string \<Rightarrow> string
     \<Rightarrow> trace \<Rightarrow> ((error option \<times> LaunchInstanceRequest) exec \<times> trace) option" where
  "createReqForRover sdk c displayName availabilityDomain compartmentID nodeShape
       nodeImageName nodeSubnetID authorizedKeys tr =
     (case getImageID sdk c compartmentID nodeImageName tr of
        None \<Rightarrow> None
      | Some (Panic msg, tr1) \<Rightarrow> Some (Panic msg, tr1)
      | Some (Return (imageID, Some err), tr1) \<Rightarrow>
          Some (Return (None, emptyLaunchInstanceRequest), tr1)
      | Some (Return (imageID, None), tr1) \<Rightarrow>
          Some (Return (None,
                  \<lparr>AvailabilityDomain_req = Some ''OREI-1-AD-1'',
                   CompartmentId_req = Some compartmentID,
                   Shape_req = Some nodeShape,
                   SubnetId_req = Some nodeSubnetID,
                   AssignPublicIp_req = Some True,
                   FaultDomain_req = Some ''FAULT-DOMAIN-1'',
                   DisplayName_req = Some displayName,
                   Metadata_req = launchMetadata authorizedKeys,
                   ImageId_req = imageID,
                   BootVolumeSizeInGBs_req = Some 50,
                   IsMonitoringDisabled_req = Some True\<rparr>),
                tr1))"

subsection \<open>CreateInstance (part_000, lines 83 to 131)\<close>

definition pollUntilRunning :: "OCIOperationResponse \<Rightarrow> bool" where
  "pollUntilRunning r =
     (case Response_GetInstance r of
        Some converted \<Rightarrow> Instance_LifecycleState converted \<noteq> InstanceLifecycleStateRunning
      | None \<Rightarrow> True)"

definition pollUntilStopped :: "OCIOperationResponse \<Rightarrow> bool" where
  "pollUntilStopped r =
     (case Response_GetInstance r of
        Some converted \<Rightarrow> Instance_LifecycleState converted \<noteq> InstanceLifecycleStateStopped
      | None \<Rightarrow> True)"

text \<open>
  After a launch that succeeded the variable \<^verbatim>\<open>err\<close> is nil; the polling read assigns
  its error to \<^verbatim>\<open>pollError\<close>, and line 127 returns \<^verbatim>\<open>err\<close>.
\<close>

definition CreateInstance ::
  "SDK \<Rightarrow> Client \<Rightarrow> Driver \<Rightarrow> string \<Rightarrow> trace
     \<Rightarrow> ((string \<times> error option) exec \<times> trace) option" where
  "CreateInstance sdk c d authorizedKeys tr =
     (let displayName = defaultNodeNamePfx @ MachineName d;
          availabilityDomain = AvailabilityDomain d;
          compartmentID = NodeCompartmentID d;
          nodeShape = Shape d;
          nodeImageName = Image d;
          nodeSubnetID = SubnetID d in
      case (if IsRover d
            then createReqForRover sdk c displayName availabilityDomain compartmentID
                   nodeShape nodeImageName nodeSubnetID authorizedKeys tr
            else createReqForOCi sdk c displayName availabilityDomain compartmentID
                   nodeShape nodeImageName nodeSubnetID authorizedKeys tr) of
        None \<Rightarrow> None
      | Some (Panic msg, tr1) \<Rightarrow> Some (Panic msg, tr1)
      | Some (Return (Some err, request), tr1) \<Rightarrow> Some (Return ([], Some err), tr1)
      | Some (Return (None, request), tr1) \<Rightarrow>
          (let tr2 = tr1 @ [CallLaunchInstance request] in
           case LaunchInstance sdk tr1 (computeClient c) request of
             Inl err \<Rightarrow> Some (Return ([], Some err), tr2)
           | Inr createResp \<Rightarrow>
               (let err = None;
                    pollingGetRequest =
                      \<lparr>gi_InstanceId = Instance_Id createResp,
                       gi_RequestMetadata = CustomizedRetryPolicy pollUntilRunning\<rparr>;
                    tr3 = tr2 @ [CallGetInstance pollingGetRequest] in
                case GetInstance_sdk sdk tr2 (computeClient c) pollingGetRequest of
                  Inl pollError \<Rightarrow> Some (Return ([], err), tr3)
                | Inr instance \<Rightarrow>
                    (case Instance_Id instance of
                       None \<Rightarrow> Some (Panic nilDereference, tr3)
                     | Some ident \<Rightarrow> Some (Return (ident, None), tr3)))))"

subsection \<open>TerminateInstance, StopInstance, StartInstance, RestartInstance
  (part_000, lines 220 to 293)\<close>

definition TerminateInstance :: "SDK \<Rightarrow> Client \<Rightarrow> string \<Rightarrow> trace \<Rightarrow> error option \<times> trace" where
  "TerminateInstance sdk c ident tr =
     (TerminateInstance_sdk sdk tr (computeClient c) (Some ident),
      tr @ [CallTerminateInstance (Some ident)])"

definition StopInstance :: "SDK \<Rightarrow> Client \<Rightarrow> string \<Rightarrow> trace \<Rightarrow> error option \<times> trace" where
  "StopInstance sdk c ident tr =
     (let actionRequest = \<lparr>ia_InstanceId = Some ident, ia_Action = ActionStop\<rparr>;
          tr1 = tr @ [CallInstanceAction actionRequest] in
      case InstanceAction_sdk sdk tr (computeClient c) actionRequest of
        Inl err \<Rightarrow> (Some err, tr1)
      | Inr stopResp \<Rightarrow>
          (let pollingGetRequest =
                 \<lparr>gi_InstanceId = Instance_Id stopResp,
                  gi_RequestMetadata = CustomizedRetryPolicy pollUntilStopped\<rparr> in
           case GetInstance_sdk sdk tr1 (computeClient c) pollingGetRequest of
             Inl err \<Rightarrow> (Some err, tr1 @ [CallGetInstance pollingGetRequest])
           | Inr _ \<Rightarrow> (None, tr1 @ [CallGetInstance pollingGetRequest])))"

definition StartInstance :: "SDK \<Rightarrow> Client \<Rightarrow> string \<Rightarrow> trace \<Rightarrow> error option \<times> trace" where
  "StartInstance sdk c ident tr =
     (let actionRequest = \<lparr>ia_InstanceId = Some ident, ia_Action = ActionStart\<rparr>;
          tr1 = tr @ [CallInstanceAction actionRequest] in
      case InstanceAction_sdk sdk tr (computeClient c) actionRequest of
        Inl err \<Rightarrow> (Some err, tr1)
      | Inr startResp \<Rightarrow>
          (let pollingGetRequest =
                 \<lparr>gi_InstanceId = Instance_Id startResp,
                  gi_RequestMetadata = CustomizedRetryPolicy pollUntilRunning\<rparr> in
           case GetInstance_sdk sdk tr1 (computeClient c) pollingGetRequest of
             Inl err \<Rightarrow> (Some err, tr1 @ [CallGetInstance pollingGetRequest])
           | Inr _ \<Rightarrow> (None, tr1 @ [CallGetInstance pollingGetRequest])))"

definition RestartInstance :: "SDK \<Rightarrow> Client \<Rightarrow> string \<Rightarrow> trace \<Rightarrow> error option \<times> trace" where
  "RestartInstance sdk c ident tr =
     (case StopInstance sdk c ident tr of
        (Some err, tr1) \<Rightarrow> (Some err, tr1)
      | (None, tr1) \<Rightarrow> StartInstance sdk c ident tr1)"

subsection \<open>GetInstanceIP (part_000, lines 295 to 319)\<close>

definition GetInstanceIP ::
  "SDK \<Rightarrow> Client \<Rightarrow> string \<Rightarrow> string \<Rightarrow> trace \<Rightarrow> (string \<times> error option) exec \<times> trace" where
  "GetInstanceIP sdk c ident compartmentID tr =
     (let request = \<lparr>lv_InstanceId = Some ident, lv_CompartmentId = Some compartmentID\<rparr>;
          tr1 = tr @ [CallListVnicAttachments request] in
      case ListVnicAttachments sdk tr (computeClient c) request of
        Inl err \<Rightarrow> (Return ([], Some err), tr1)
      | Inr [] \<Rightarrow>
          (Return ([], Some (Error ''instance does not have any configured VNICs'')), tr1)
      | Inr (item # _) \<Rightarrow>
          (let tr2 = tr1 @ [CallGetVnic (VnicId item)] in
           case GetVnic sdk tr1 (virtualNetworkClient c) (VnicId item) of
             Inl err \<Rightarrow> (Return ([], Some err), tr2)
           | Inr vnic \<Rightarrow>
               (case PublicIp vnic of
                  None \<Rightarrow>
                    (case PrivateIp vnic of
                       None \<Rightarrow> (Panic nilDereference, tr2)
                     | Some ip \<Rightarrow> (Return (ip, None), tr2))
                | Some ip \<Rightarrow> (Return (ip, None), tr2))))"

section \<open>The driver\<close>

subsection \<open>GetState (oci.go, lines 315 to 343)\<close>

definition GetState :: "SDK \<Rightarrow> Driver \<Rightarrow> trace \<Rightarrow> (State \<times> error option) exec \<times> trace" where
  "GetState sdk d tr =
     (case initOCIClient sdk d tr of
        (Panic msg, tr1) \<Rightarrow> (Panic msg, tr1)
      | (Return (oci, Some err), tr1) \<Rightarrow> (Return (StateNone, Some err), tr1)
      | (Return (oci, None), tr1) \<Rightarrow>
          (case GetInstance sdk oci (InstanceID d) tr1 of
             ((instance, Some err), tr2) \<Rightarrow> (Return (StateNone, Some err), tr2)
           | ((instance, None), tr2) \<Rightarrow>
               (let s = Instance_LifecycleState instance in
                if s = InstanceLifecycleStateRunning then (Return (Running, None), tr2)
                else if s = InstanceLifecycleStateStopped
                        \<or> s = InstanceLifecycleStateTerminated
                  then (Return (Stopped, None), tr2)
                else if s = InstanceLifecycleStateStopping
                        \<or> s = InstanceLifecycleStateTerminating
                  then (Return (Stopping, None), tr2)
                else if s = InstanceLifecycleStateStarting
                        \<or> s = InstanceLifecycleStateProvisioning
                        \<or> s = InstanceLifecycleStateCreatingImage
                  then (Return (Starting, None), tr2)
                else (Return (StateNone, None), tr2))))"

subsection \<open>GetIP, GetSSHPort, GetSSHUsername, GetURL (oci.go, lines 254 to 313)\<close>

text \<open>\<^verbatim>\<open>GetIP\<close> caches the address in the driver, so it returns the driver too.\<close>

definition GetIP ::
  "SDK \<Rightarrow> Driver \<Rightarrow> trace \<Rightarrow> (string \<times> error option) exec \<times> Driver \<times> trace" where
  "GetIP sdk d tr =
     (if IPAddress d = [] then
        (case initOCIClient sdk d tr of
           (Panic msg, tr1) \<Rightarrow> (Panic msg, d, tr1)
         | (Return (oci, Some err), tr1) \<Rightarrow> (Return ([], Some err), d, tr1)
         | (Return (oci, None), tr1) \<Rightarrow>
             (case GetInstanceIP sdk oci (InstanceID d) (NodeCompartmentID d) tr1 of
                (Panic msg, tr2) \<Rightarrow> (Panic msg, d, tr2)
              | (Return (ip, Some err), tr2) \<Rightarrow> (Return ([], Some err), d, tr2)
              | (Return (ip, None), tr2) \<Rightarrow> (Return (ip, None), d\<lparr>IPAddress := ip\<rparr>, tr2)))
      else (Return (IPAddress d, None), d, tr))"

definition GetSSHPort :: "Driver \<Rightarrow> int \<times> error option" where
  "GetSSHPort d = (defaultSSHPort, None)"

definition GetSSHUsername :: "Driver \<Rightarrow> string" where
  "GetSSHUsername d = defaultSSHUser"

definition GetURL ::
  "SDK \<Rightarrow> Driver \<Rightarrow> trace \<Rightarrow> (string \<times> error option) exec \<times> Driver \<times> trace" where
  "GetURL sdk d tr =
     (case GetIP sdk d tr of
        (Panic msg, d', tr') \<Rightarrow> (Panic msg, d', tr')
      | (Return (ip, Some err), d', tr') \<Rightarrow> (Return ([], Some err), d', tr')
      | (Return (ip, None), d', tr') \<Rightarrow>
          if ip = [] then (Return ([], None), d', tr')
          else (Return (''tcp://'' @ ip @ '':'' @ formatInt defaultDockerPort, None), d', tr'))"

subsection \<open>PreCreateCheck (oci.go, lines 351 to 376)\<close>

definition PreCreateCheck :: "SDK \<Rightarrow> Driver \<Rightarrow> trace \<Rightarrow> (error option exec \<times> trace) option" where
  "PreCreateCheck sdk d tr =
     (if IsRover d then Some (Return None, tr)
      else
        (case initOCIClient sdk d tr of
           (Panic msg, tr1) \<Rightarrow> Some (Panic msg, tr1)
         | (Return (oci, Some err), tr1) \<Rightarrow> Some (Return (Some err), tr1)
         | (Return (oci, None), tr1) \<Rightarrow>
             (case getImageID sdk oci (NodeCompartmentID d) defaultImage tr1 of
                None \<Rightarrow> None
              | Some (Panic msg, tr2) \<Rightarrow> Some (Panic msg, tr2)
              | Some (Return (img, Some err), tr2) \<Rightarrow> Some (Return (Some err), tr2)
              | Some (Return (None, None), tr2) \<Rightarrow> Some (Panic nilDereference, tr2)
              | Some (Return (Some img, None), tr2) \<Rightarrow>
                  if length img = 0
                  then Some (Return (Some (Error ''could not retrieve node image ID from OCI'')),
                             tr2)
                  else Some (Return None, tr2))))"

section \<open>Predicates of the properties\<close>








text \<open>\<open>startCount\<close> and \<open>stopCount\<close> count the start and stop actions of a trace.\<close>

fun startCount :: "trace \<Rightarrow> nat" where
  "startCount [] = 0"
| "startCount (CallInstanceAction request # rest) =
     (if ia_Action request = ActionStart then Suc (startCount rest) else startCount rest)"
| "startCount (_ # rest) = startCount rest"

fun stopCount :: "trace \<Rightarrow> nat" where
  "stopCount [] = 0"
| "stopCount (CallInstanceAction request # rest) =
     (if ia_Action request = ActionStop then Suc (stopCount rest) else stopCount rest)"
| "stopCount (_ # rest) = stopCount rest"

section \<open>Example environments\<close>

text \<open>
  The examples use ASCII strings only. On those, \<^verbatim>\<open>strings.ToUpper\<close> maps the letters
  a to z to A to Z and keeps every other byte, and \<^verbatim>\<open>strings.EqualFold\<close> compares the
  results.
\<close>

definition asciiUpper :: "char \<Rightarrow> char" where
  "asciiUpper ch =
     (let n = (of_char ch :: nat) in if 97 \<le> n \<and> n \<le> 122 then char_of (n - 32) else ch)"

definition asciiToUpper :: "string \<Rightarrow> string" where
  "asciiToUpper s = map asciiUpper s"

definition asciiEqualFold :: "string \<Rightarrow> string \<Rightarrow> bool" where
  "asciiEqualFold s t = (asciiToUpper s = asciiToUpper t)"

definition okBaseClient :: BaseClient where
  "okBaseClient = \<lparr>Host = ''iaas.example'', HTTPClient = HttpClient None\<rparr>"

definition okInstance :: core_Instance where
  "okInstance =
     \<lparr>Instance_Id = Some ''ocid1.instance.1'', Instance_LifecycleState = ''RUNNING''\<rparr>"

definition movingInstance :: core_Instance where
  "movingInstance =
     \<lparr>Instance_Id = Some ''ocid1.instance.1'', Instance_LifecycleState = ''MOVING''\<rparr>"

definition okSDK :: SDK where
  "okSDK =
     \<lparr>NewComputeClientWithConfigurationProvider = (\<lambda>tr cfg. Inr okBaseClient),
      NewVirtualNetworkClientWithConfigurationProvider = (\<lambda>tr cfg. Inr okBaseClient),
      NewIdentityClientWithConfigurationProvider = (\<lambda>tr cfg. Inr okBaseClient),
      ReadFile = (\<lambda>tr path. Inr ''pem''),
      ListAvailabilityDomains = (\<lambda>tr cl cid. Inr []),
      ListImages = (\<lambda>tr cl req. Inr \<lparr>Items = [], OpcNextPage = None\<rparr>),
      LaunchInstance = (\<lambda>tr cl req. Inr okInstance),
      GetInstance_sdk = (\<lambda>tr cl req. Inr okInstance),
      InstanceAction_sdk = (\<lambda>tr cl req. Inr okInstance),
      TerminateInstance_sdk = (\<lambda>tr cl ident. None),
      ListVnicAttachments = (\<lambda>tr cl req. Inr []),
      GetVnic = (\<lambda>tr cl ident. Inr \<lparr>PublicIp = None, PrivateIp = None\<rparr>),
      ToUpper = asciiToUpper,
      EqualFold = asciiEqualFold\<rparr>"

definition okDriver :: Driver where
  "okDriver =
     \<lparr>IPAddress = [], MachineName = ''node1'', SSHUser = ''opc'', SSHPort = 22,
      StorePath = ''/store'', AvailabilityDomain = ''AD-1'', DockerPort = 2376,
      Fingerprint = ''aa:bb'', Image = ''Oracle-Linux-7.7'',
      NodeCompartmentID = ''ocid1.compartment.1'',
      PrivateKeyContents = ''key'', PrivateKeyPassphrase = [], PrivateKeyPath = [],
      Region = ''us-phoenix-1'', Shape = ''VM.Standard2.1'', SubnetID = ''ocid1.subnet.1'',
      TenancyID = ''ocid1.tenancy.1'', UserID = ''ocid1.user.1'',
      VCNCompartmentID = ''ocid1.compartment.2'', VCNID = ''ocid1.vcn.1'', IsRover = False,
      RoverComputeEndpoint = [], RoverNetworkEndpoint = [], RoverCertPath = [],
      RoverCertContent = [], InstanceID = ''ocid1.instance.1''\<rparr>"

definition okClient :: Client where
  "okClient =
     \<lparr>configuration =
        \<lparr>cfg_tenancy = ''ocid1.tenancy.1'', cfg_user = ''ocid1.user.1'',
         cfg_region = ''us-phoenix-1'', cfg_fingerprint = ''aa:bb'',
         cfg_privateKey = ''key'', cfg_privateKeyPassphrase = []\<rparr>,
      computeClient = okBaseClient, virtualNetworkClient = okBaseClient,
      identityClient = okBaseClient, sleepDuration = 5\<rparr>"

text \<open>An available image of the first compartment.\<close>

definition mkImage :: "string \<Rightarrow> string \<Rightarrow> int \<Rightarrow> core_Image" where
  "mkImage i n t =
     \<lparr>Image_Id = Some i, Image_DisplayName = Some n, Image_TimeCreated = t,
      Image_CompartmentId = ''ocid1.compartment.1'', Image_LifecycleState = ''AVAILABLE''\<rparr>"

text \<open>Three images on two pages, the newest first.\<close>

definition pagedImages ::
  "trace \<Rightarrow> BaseClient \<Rightarrow> ListImagesRequest \<Rightarrow> error + ListImagesResponse" where
  "pagedImages tr cl req =
     (if li_Page req = None then
        Inr \<lparr>Items = [mkImage ''img3'' ''Windows'' 30, mkImage ''img2'' ''oracle-linux-7.7'' 20],
             OpcNextPage = Some ''p2''\<rparr>
      else if li_Page req = Some ''p2'' then
        Inr \<lparr>Items = [mkImage ''img1'' ''Oracle-Linux-7.7'' 10], OpcNextPage = None\<rparr>
      else Inl (Error ''bad page''))"

definition okInitTrace :: trace where
  "okInitTrace =
     [CallNewComputeClient (configuration okClient),
      CallNewVirtualNetworkClient (configuration okClient),
      CallNewIdentityClient (configuration okClient)]"

definition stopFails :: SDK where
  "stopFails =
     okSDK\<lparr>InstanceAction_sdk :=
       (\<lambda>tr cl request. if ia_Action request = ActionStop then Inl (Error ''stop refused'')
                         else Inr okInstance)\<rparr>"

definition stopRequest :: InstanceActionRequest where
  "stopRequest = \<lparr>ia_InstanceId = Some ''ocid1.instance.1'', ia_Action = ActionStop\<rparr>"

definition pollRequest :: "(OCIOperationResponse \<Rightarrow> bool) \<Rightarrow> GetInstanceRequest" where
  "pollRequest shouldRetry =
     \<lparr>gi_InstanceId = Some ''ocid1.instance.1'',
      gi_RequestMetadata = CustomizedRetryPolicy shouldRetry\<rparr>"






definition pollFails :: SDK where
  "pollFails =
     okSDK\<lparr>ListImages := pagedImages,
           GetInstance_sdk := (\<lambda>tr cl request. Inl (Error ''read failed''))\<rparr>"

definition okLaunchRequest :: LaunchInstanceRequest where
  "okLaunchRequest =
     \<lparr>AvailabilityDomain_req = Some ''AD-1'',
      CompartmentId_req = Some ''ocid1.compartment.1'',
      Shape_req = Some ''VM.Standard2.1'',
      SubnetId_req = Some ''ocid1.subnet.1'',
      AssignPublicIp_req = None,
      FaultDomain_req = None,
      DisplayName_req = Some ''oci-node-driver-node1'',
      Metadata_req = launchMetadata ''ssh-rsa AAAA'',
      ImageId_req = Some ''img2'',
      BootVolumeSizeInGBs_req = None,
      IsMonitoringDisabled_req = None\<rparr>"

definition twoDomains :: SDK where
  "twoDomains =
     okSDK\<lparr>ListImages := pagedImages,
           ListAvailabilityDomains :=
             (\<lambda>tr cl cid. Inr [\<lparr>AD_Name = Some ''xx-region-AD-1''\<rparr>,
                                \<lparr>AD_Name = Some ''xx-region-AD-2''\<rparr>])\<rparr>"

definition twoDomainNames :: "string list" where
  "twoDomainNames = [''xx-region-AD-1'', ''xx-region-AD-2'']"

definition twoDomainItems :: "AvailabilityDomain_item list" where
  "twoDomainItems =
     [\<lparr>AD_Name = Some ''xx-region-AD-1''\<rparr>, \<lparr>AD_Name = Some ''xx-region-AD-2''\<rparr>]"

definition listedThenImage :: trace where
  "listedThenImage =
     [CallListAvailabilityDomains (Some ''ocid1.compartment.1''),
      CallListImages (listImagesRequest ''ocid1.compartment.1'' None)]"

definition movingSDK :: SDK where
  "movingSDK = okSDK\<lparr>GetInstance_sdk := (\<lambda>tr cl request. Inr movingInstance)\<rparr>"

definition imagesListed :: SDK where
  "imagesListed = okSDK\<lparr>ListImages := pagedImages\<rparr>"

definition withVnic :: SDK where
  "withVnic =
     okSDK\<lparr>ListVnicAttachments := (\<lambda>tr cl request. Inr [\<lparr>VnicId = Some ''ocid1.vnic.1''\<rparr>]),
           GetVnic :=
             (\<lambda>tr cl ident. Inr \<lparr>PublicIp = Some ''1.2.3.4'', PrivateIp = Some ''10.0.0.2''\<rparr>)\<rparr>"

definition vnicTrace :: trace where
  "vnicTrace =
     okInitTrace @
     [CallListVnicAttachments \<lparr>lv_InstanceId = Some ''ocid1.instance.1'',
                                lv_CompartmentId = Some ''ocid1.compartment.1''\<rparr>,
      CallGetVnic (Some ''ocid1.vnic.1'')]"

definition noImages :: SDK where
  "noImages =
     okSDK\<lparr>LaunchInstance :=
       (\<lambda>tr cl request.
          if CompartmentId_req request = None
          then Inl (Error ''400 MissingParameter compartmentId'')
          else Inr okInstance)\<rparr>"

section \<open>Properties\<close>

subsection \<open>Auxiliary facts\<close>

















lemma asciiToUpper_examples:
  "asciiToUpper ''oracle-linux-7.7'' = ''ORACLE-LINUX-7.7''"
  "asciiToUpper ''Oracle-Linux-7.7'' = ''ORACLE-LINUX-7.7''"
  "asciiToUpper ''Windows'' = ''WINDOWS''"
  "asciiToUpper ''Ubuntu'' = ''UBUNTU''"
  by code_simp+

lemma okSDK_strings:
  "ToUpper okSDK = asciiToUpper"
  "EqualFold okSDK = asciiEqualFold"
  by (simp_all add: okSDK_def)






lemma li_Page_listImagesRequest: "li_Page (listImagesRequest cid page) = page"
  by (simp add: listImagesRequest_def)



lemma startCount_append: "startCount (xs @ ys) = startCount xs + startCount ys"
  by (induction xs rule: startCount.induct) auto

lemma stopCount_append: "stopCount (xs @ ys) = stopCount xs + stopCount ys"
  by (induction xs rule: stopCount.induct) auto

lemma StopInstance_counts:
  "StopInstance sdk c ident tr = (r, tr1) \<Longrightarrow>
     startCount tr1 = startCount tr \<and> stopCount tr1 = Suc (stopCount tr)"
  by (auto simp: StopInstance_def Let_def startCount_append stopCount_append split: sum.splits)

lemma StartInstance_counts:
  "StartInstance sdk c ident tr = (r, tr1) \<Longrightarrow>
     startCount tr1 = Suc (startCount tr) \<and> stopCount tr1 = stopCount tr"
  by (auto simp: StartInstance_def Let_def startCount_append stopCount_append split: sum.splits)

lemma initOCIClient_ok: "initOCIClient okSDK okDriver [] = (Return (okClient, None), okInitTrace)"
  by (simp add: initOCIClient_def newClient_def newIdentity_def okSDK_def okDriver_def
      okClient_def okInitTrace_def Let_def)

lemma okSDK_sel:
  "ListAvailabilityDomains okSDK = (\<lambda>tr cl cid. Inr [])"
  "ListImages okSDK = (\<lambda>tr cl req. Inr \<lparr>Items = [], OpcNextPage = None\<rparr>)"
  "LaunchInstance okSDK = (\<lambda>tr cl req. Inr okInstance)"
  "GetInstance_sdk okSDK = (\<lambda>tr cl req. Inr okInstance)"
  "InstanceAction_sdk okSDK = (\<lambda>tr cl req. Inr okInstance)"
  by (simp_all add: okSDK_def)

lemma pollFails_sel:
  "ListAvailabilityDomains pollFails = ListAvailabilityDomains okSDK"
  "ListImages pollFails = pagedImages"
  "LaunchInstance pollFails = LaunchInstance okSDK"
  "GetInstance_sdk pollFails = (\<lambda>tr cl request. Inl (Error ''read failed''))"
  "EqualFold pollFails = asciiEqualFold"
  by (simp_all add: pollFails_def okSDK_strings)

lemma getImageID_pollFails:
  "getImageID pollFails okClient ''ocid1.compartment.1'' ''Oracle-Linux-7.7'' tr =
     Some (Return (Some ''img2'', None),
           tr @ [CallListImages (listImagesRequest ''ocid1.compartment.1'' None)])"
  apply (simp add: getImageID_def)
  apply (subst getImageID_pages.simps)
  apply (simp add: pollFails_sel pagedImages_def li_Page_listImagesRequest mkImage_def
      okSDK_strings asciiEqualFold_def asciiToUpper_examples)
  done

lemma twoDomains_sel:
  "ListAvailabilityDomains twoDomains =
     (\<lambda>tr cl cid. Inr [\<lparr>AD_Name = Some ''xx-region-AD-1''\<rparr>,
                        \<lparr>AD_Name = Some ''xx-region-AD-2''\<rparr>])"
  "ListImages twoDomains = pagedImages"
  "ToUpper twoDomains = asciiToUpper"
  "EqualFold twoDomains = asciiEqualFold"
  by (simp_all add: twoDomains_def okSDK_strings)

lemma getImageID_twoDomains:
  "getImageID twoDomains okClient ''ocid1.compartment.1'' ''Oracle-Linux-7.7'' tr =
     Some (Return (Some ''img2'', None),
           tr @ [CallListImages (listImagesRequest ''ocid1.compartment.1'' None)])"
  apply (simp add: getImageID_def)
  apply (subst getImageID_pages.simps)
  apply (simp add: twoDomains_sel pagedImages_def li_Page_listImagesRequest mkImage_def
      okSDK_strings asciiEqualFold_def asciiToUpper_examples)
  done

lemma Contains_examples:
  "Contains ''xx-region-AD-1'' (asciiToUpper ''ad'')"
  "Contains ''xx-region-AD-2'' (asciiToUpper ''ad'')"
  "\<not> Contains ''xx-region-AD-2'' (asciiToUpper ''xx-region-AD-1'')"
  "Contains ''xx-region-AD-1'' (asciiToUpper ''AD-1'')"
  "\<not> Contains ''xx-region-AD-2'' (asciiToUpper ''AD-1'')"
  "\<not> Contains ''xx-region-AD-1'' (asciiToUpper ''AD-9'')"
  "\<not> Contains ''xx-region-AD-2'' (asciiToUpper ''AD-9'')"
  by code_simp+

lemma resolve_no_match:
  "map AD_Name ads = map Some names \<Longrightarrow>
   \<forall>m \<in> set names. \<not> Contains m (ToUpper sdk availabilityDomain) \<Longrightarrow>
   resolveAvailabilityDomain sdk ads availabilityDomain = Return availabilityDomain"
  by (induction ads arbitrary: names) auto

lemma resolve_first_match:
  "map AD_Name ads = map Some (pre @ n # post) \<Longrightarrow>
   \<forall>m \<in> set pre. \<not> Contains m (ToUpper sdk availabilityDomain) \<Longrightarrow>
   Contains n (ToUpper sdk availabilityDomain) \<Longrightarrow>
   resolveAvailabilityDomain sdk ads availabilityDomain =
     resolveAvailabilityDomain sdk (drop (Suc (length pre)) ads) n"
proof (induction pre arbitrary: ads)
  case Nil
  then show ?case by (cases ads) auto
next
  case (Cons p pre)
  then show ?case by (cases ads) auto
qed

lemma resolve_returns:
  "map AD_Name ads = map Some names \<Longrightarrow>
   \<exists>resolved. resolveAvailabilityDomain sdk ads availabilityDomain = Return resolved"
  by (induction ads arbitrary: names availabilityDomain) auto

lemma newClient_Image:
  "newClient sdk cfg (d\<lparr>Image := x\<rparr>) tr = newClient sdk cfg d tr"
  by (simp add: newClient_def Let_def cong: sum.case_cong if_cong)

lemma initOCIClient_Image:
  "initOCIClient sdk (d\<lparr>Image := x\<rparr>) tr = initOCIClient sdk d tr"
  by (simp add: initOCIClient_def newClient_Image)

lemma PreCreateCheck_Image:
  "PreCreateCheck sdk (d\<lparr>Image := x\<rparr>) tr = PreCreateCheck sdk d tr"
  by (simp add: PreCreateCheck_def initOCIClient_Image
      split: prod.splits exec.splits option.splits)

lemma newClient_DockerPort:
  "newClient sdk cfg (d\<lparr>DockerPort := x\<rparr>) tr = newClient sdk cfg d tr"
  by (simp add: newClient_def Let_def cong: sum.case_cong if_cong)

lemma initOCIClient_DockerPort:
  "initOCIClient sdk (d\<lparr>DockerPort := x\<rparr>) tr = initOCIClient sdk d tr"
  by (simp add: initOCIClient_def newClient_DockerPort)

lemma GetIP_DockerPort:
  "GetIP sdk (d\<lparr>DockerPort := x\<rparr>) tr =
     (case GetIP sdk d tr of (r, d', tr') \<Rightarrow> (r, d'\<lparr>DockerPort := x\<rparr>, tr'))"
  by (simp add: GetIP_def initOCIClient_DockerPort
      split: prod.splits exec.splits option.splits)

lemma format_defaultDockerPort: "formatInt defaultDockerPort = ''2376''"
  by code_simp

lemma getImageID_okSDK_default:
  "getImageID okSDK okClient ''ocid1.compartment.1'' ''Oracle-Linux-7.7'' tr =
     Some (Return (None, Some (noSuchImage ''Oracle-Linux-7.7'')),
           tr @ [CallListImages (listImagesRequest ''ocid1.compartment.1'' None)])"
  apply (simp add: getImageID_def)
  apply (subst getImageID_pages.simps)
  apply (simp add: okSDK_sel)
  done

lemma getImageID_imagesListed:
  "getImageID imagesListed okClient ''ocid1.compartment.1'' ''Oracle-Linux-7.7'' tr =
     Some (Return (Some ''img2'', None),
           tr @ [CallListImages (listImagesRequest ''ocid1.compartment.1'' None)])"
  apply (simp add: getImageID_def)
  apply (subst getImageID_pages.simps)
  apply (simp add: imagesListed_def pagedImages_def li_Page_listImagesRequest mkImage_def
      okSDK_strings asciiEqualFold_def asciiToUpper_examples)
  done

lemma initOCIClient_moving:
  "initOCIClient movingSDK okDriver [] = (Return (okClient, None), okInitTrace)"
  by (simp add: initOCIClient_def newClient_def newIdentity_def movingSDK_def okSDK_def
      okDriver_def okClient_def okInitTrace_def Let_def)

lemma initOCIClient_imagesListed:
  "initOCIClient imagesListed okDriver [] = (Return (okClient, None), okInitTrace)"
  by (simp add: initOCIClient_def newClient_def newIdentity_def imagesListed_def okSDK_def
      okDriver_def okClient_def okInitTrace_def Let_def)

lemma initOCIClient_withVnic:
  "initOCIClient withVnic okDriver [] = (Return (okClient, None), okInitTrace)"
  by (simp add: initOCIClient_def newClient_def newIdentity_def withVnic_def okSDK_def
      okDriver_def okClient_def okInitTrace_def Let_def)

lemma noImages_sel:
  "ListAvailabilityDomains noImages = (\<lambda>tr cl cid. Inr [])"
  "ListImages noImages = (\<lambda>tr cl req. Inr \<lparr>Items = [], OpcNextPage = None\<rparr>)"
  "LaunchInstance noImages =
     (\<lambda>tr cl request.
        if CompartmentId_req request = None
        then Inl (Error ''400 MissingParameter compartmentId'')
        else Inr okInstance)"
  by (simp_all add: noImages_def okSDK_def)

lemma getImageID_noImages:
  "getImageID noImages okClient ''ocid1.compartment.1'' ''nope'' tr =
     Some (Return (None, Some (noSuchImage ''nope'')),
           tr @ [CallListImages (listImagesRequest ''ocid1.compartment.1'' None)])"
  apply (simp add: getImageID_def)
  apply (subst getImageID_pages.simps)
  apply (simp add: noImages_sel)
  done

subsection \<open>Lifecycle state mapping\<close>

text \<open>
  Claim C3. Once the client is built and the instance read succeeds, \<open>GetState\<close>
  returns a machine state and a nil error for every lifecycle-state string: Running for
  RUNNING; Stopped for STOPPED and TERMINATED; Stopping for STOPPING and TERMINATING;
  Starting for STARTING, PROVISIONING and CREATING_IMAGE; and the none state for every
  other string, the ones the SDK does not know included.
\<close>

theorem GetState_total:
  assumes init: "initOCIClient sdk d tr = (Return (oci, None), tr1)"
    and read: "GetInstance_sdk sdk tr1 (computeClient oci)
                 \<lparr>gi_InstanceId = Some (InstanceID d), gi_RequestMetadata = NoRetryPolicy\<rparr>
               = Inr inst"
  shows "GetState sdk d tr =
           (Return
              (let s = Instance_LifecycleState inst in
               if s = InstanceLifecycleStateRunning then Running
               else if s \<in> {InstanceLifecycleStateStopped, InstanceLifecycleStateTerminated}
                 then Stopped
               else if s \<in> {InstanceLifecycleStateStopping, InstanceLifecycleStateTerminating}
                 then Stopping
               else if s \<in> {InstanceLifecycleStateStarting,
                             InstanceLifecycleStateProvisioning,
                             InstanceLifecycleStateCreatingImage}
                 then Starting
               else StateNone,
               None),
            tr1 @ [CallGetInstance \<lparr>gi_InstanceId = Some (InstanceID d),
                                     gi_RequestMetadata = NoRetryPolicy\<rparr>])"
  using init read by (simp add: GetState_def GetInstance_def Let_def)

theorem GetState_total_witness:
  "initOCIClient okSDK okDriver [] = (Return (okClient, None), okInitTrace)
   \<and> GetInstance_sdk okSDK okInitTrace (computeClient okClient)
        \<lparr>gi_InstanceId = Some (InstanceID okDriver), gi_RequestMetadata = NoRetryPolicy\<rparr>
      = Inr okInstance
   \<and> GetState okSDK okDriver [] =
        (Return (Running, None),
         okInitTrace @ [CallGetInstance \<lparr>gi_InstanceId = Some ''ocid1.instance.1'',
                                          gi_RequestMetadata = NoRetryPolicy\<rparr>])
   \<and> initOCIClient movingSDK okDriver [] = (Return (okClient, None), okInitTrace)
   \<and> GetInstance_sdk movingSDK okInitTrace (computeClient okClient)
        \<lparr>gi_InstanceId = Some (InstanceID okDriver), gi_RequestMetadata = NoRetryPolicy\<rparr>
      = Inr movingInstance
   \<and> GetState movingSDK okDriver [] =
        (Return (StateNone, None),
         okInitTrace @ [CallGetInstance \<lparr>gi_InstanceId = Some ''ocid1.instance.1'',
                                          gi_RequestMetadata = NoRetryPolicy\<rparr>])"
proof -
  have read: "GetInstance_sdk okSDK okInitTrace (computeClient okClient)
        \<lparr>gi_InstanceId = Some (InstanceID okDriver), gi_RequestMetadata = NoRetryPolicy\<rparr>
      = Inr okInstance"
    by (simp add: okSDK_def)
  have moving: "GetInstance_sdk movingSDK okInitTrace (computeClient okClient)
        \<lparr>gi_InstanceId = Some (InstanceID okDriver), gi_RequestMetadata = NoRetryPolicy\<rparr>
      = Inr movingInstance"
    by (simp add: movingSDK_def)
  have running: "GetState okSDK okDriver [] =
        (Return (Running, None),
         okInitTrace @ [CallGetInstance \<lparr>gi_InstanceId = Some ''ocid1.instance.1'',
                                          gi_RequestMetadata = NoRetryPolicy\<rparr>])"
    using GetState_total [OF initOCIClient_ok read]
    by (simp add: okInstance_def okDriver_def InstanceLifecycleStateRunning_def)
  have unknown: "GetState movingSDK okDriver [] =
        (Return (StateNone, None),
         okInitTrace @ [CallGetInstance \<lparr>gi_InstanceId = Some ''ocid1.instance.1'',
                                          gi_RequestMetadata = NoRetryPolicy\<rparr>])"
    using GetState_total [OF initOCIClient_moving moving]
    by (simp add: movingInstance_def okDriver_def InstanceLifecycleStateRunning_def
        InstanceLifecycleStateStopped_def InstanceLifecycleStateTerminated_def
        InstanceLifecycleStateStopping_def InstanceLifecycleStateTerminating_def
        InstanceLifecycleStateStarting_def InstanceLifecycleStateProvisioning_def
        InstanceLifecycleStateCreatingImage_def)
  from initOCIClient_ok read running initOCIClient_moving moving unknown
  show ?thesis by (intro conjI)
qed

subsection \<open>Image resolution: empty input\<close>

text \<open>
  Claim C8. With an empty compartment ID or an empty image name \<open>getImageID\<close> returns
  the validation error at once: the trace is the one it was given, so no request was
  issued.
\<close>

theorem getImageID_empty_input:
  assumes "compartmentID = [] \<or> nodeImageName = []"
  shows "getImageID sdk c compartmentID nodeImageName tr =
           Some (Return (None,
                   Some (Error ''cannot retrieve image ID without a compartment and image name'')),
                 tr)"
  using assms by (auto simp: getImageID_def)

theorem getImageID_empty_input_witness:
  "getImageID okSDK okClient [] ''Oracle-Linux-7.7'' [] =
     Some (Return (None,
             Some (Error ''cannot retrieve image ID without a compartment and image name'')), [])
   \<and> getImageID okSDK okClient ''ocid1.compartment.1'' [] okInitTrace =
     Some (Return (None,
             Some (Error ''cannot retrieve image ID without a compartment and image name'')),
           okInitTrace)"
  using getImageID_empty_input [of "[]" "''Oracle-Linux-7.7''" okSDK okClient "[]"]
    getImageID_empty_input [of "''ocid1.compartment.1''" "[]" okSDK okClient okInitTrace]
  by simp

subsection \<open>Restart\<close>

text \<open>
  Claim C4. \<open>RestartInstance\<close> issues the stop action. When \<open>StopInstance\<close> returns
  an error, that error is the result and no start action is issued; when it succeeds,
  the result is that of \<open>StartInstance\<close>, run after it, and one start action is issued.
\<close>

theorem RestartInstance_stop_then_start:
  "(StopInstance sdk c ident tr = (Some err, tr1) \<longrightarrow>
      RestartInstance sdk c ident tr = (Some err, tr1)
      \<and> stopCount tr1 = Suc (stopCount tr) \<and> startCount tr1 = startCount tr)
   \<and> (StopInstance sdk c ident tr = (None, tr1) \<longrightarrow>
      RestartInstance sdk c ident tr = StartInstance sdk c ident tr1
      \<and> stopCount (snd (RestartInstance sdk c ident tr)) = Suc (stopCount tr)
      \<and> startCount (snd (RestartInstance sdk c ident tr)) = Suc (startCount tr))"
proof (intro conjI impI)
  assume stop: "StopInstance sdk c ident tr = (Some err, tr1)"
  then show "RestartInstance sdk c ident tr = (Some err, tr1)"
    by (simp add: RestartInstance_def)
  from StopInstance_counts [OF stop]
  show "stopCount tr1 = Suc (stopCount tr)" and "startCount tr1 = startCount tr"
    by simp_all
next
  assume stop: "StopInstance sdk c ident tr = (None, tr1)"
  then show eq: "RestartInstance sdk c ident tr = StartInstance sdk c ident tr1"
    by (simp add: RestartInstance_def)
  obtain r tr2 where start: "StartInstance sdk c ident tr1 = (r, tr2)"
    by (cases "StartInstance sdk c ident tr1")
  from StopInstance_counts [OF stop] StartInstance_counts [OF start] eq start
  show "stopCount (snd (RestartInstance sdk c ident tr)) = Suc (stopCount tr)"
    and "startCount (snd (RestartInstance sdk c ident tr)) = Suc (startCount tr)"
    by simp_all
qed

theorem RestartInstance_stop_then_start_witness:
  "StopInstance stopFails okClient ''ocid1.instance.1'' [] =
      (Some (Error ''stop refused''), [CallInstanceAction stopRequest])
   \<and> RestartInstance stopFails okClient ''ocid1.instance.1'' [] =
      (Some (Error ''stop refused''), [CallInstanceAction stopRequest])
   \<and> startCount [CallInstanceAction stopRequest] = 0
   \<and> StopInstance okSDK okClient ''ocid1.instance.1'' [] =
      (None, [CallInstanceAction stopRequest, CallGetInstance (pollRequest pollUntilStopped)])
   \<and> RestartInstance okSDK okClient ''ocid1.instance.1'' [] =
      StartInstance okSDK okClient ''ocid1.instance.1''
        [CallInstanceAction stopRequest, CallGetInstance (pollRequest pollUntilStopped)]
   \<and> startCount (snd (RestartInstance okSDK okClient ''ocid1.instance.1'' [])) = 1"
proof -
  have fails: "StopInstance stopFails okClient ''ocid1.instance.1'' [] =
      (Some (Error ''stop refused''), [CallInstanceAction stopRequest])"
    by (simp add: StopInstance_def stopFails_def okSDK_def stopRequest_def)
  have succeeds: "StopInstance okSDK okClient ''ocid1.instance.1'' [] =
      (None, [CallInstanceAction stopRequest, CallGetInstance (pollRequest pollUntilStopped)])"
    by (simp add: StopInstance_def okSDK_def stopRequest_def pollRequest_def okInstance_def)
  note failing =
    RestartInstance_stop_then_start
      [of stopFails okClient "''ocid1.instance.1''" "[]" "Error ''stop refused''"
          "[CallInstanceAction stopRequest]", THEN conjunct1, rule_format, OF fails]
  note succeeding =
    RestartInstance_stop_then_start
      [of okSDK okClient "''ocid1.instance.1''" "[]" _
          "[CallInstanceAction stopRequest, CallGetInstance (pollRequest pollUntilStopped)]",
       THEN conjunct2, rule_format, OF succeeds]
  have none_started: "startCount [CallInstanceAction stopRequest] = 0"
    by (simp add: stopRequest_def)
  have one_started:
    "startCount (snd (RestartInstance okSDK okClient ''ocid1.instance.1'' [])) = 1"
    using succeeding [THEN conjunct2, THEN conjunct2] by simp
  from fails failing none_started succeeds succeeding one_started
  show ?thesis by blast
qed

subsection \<open>Image resolution: search\<close>







subsection \<open>Launch\<close>

text \<open>
  Claim C1. The claim is that a failed image resolution makes \<open>CreateInstance\<close> fail
  with the resolution error before any launch request. The code run on a driver whose
  image does not exist, against a provider that refuses a launch request without a
  compartment: \<open>getImageID\<close> returns its error, both request builders drop it and hand
  back a nil error with the empty request, and \<open>CreateInstance\<close> submits that empty
  request to \<open>LaunchInstance\<close> and returns the provider's error, on the regular path
  and on the rover path.
\<close>

theorem CreateInstance_resolution_error_not_returned:
  "getImageID noImages okClient ''ocid1.compartment.1'' ''nope''
       [CallListAvailabilityDomains (Some ''ocid1.compartment.1'')] =
     Some (Return (None, Some (noSuchImage ''nope'')),
           [CallListAvailabilityDomains (Some ''ocid1.compartment.1''),
            CallListImages (listImagesRequest ''ocid1.compartment.1'' None)])
   \<and> CreateInstance noImages okClient (okDriver\<lparr>Image := ''nope''\<rparr>) ''ssh-rsa AAAA'' [] =
     Some (Return ([], Some (Error ''400 MissingParameter compartmentId'')),
           [CallListAvailabilityDomains (Some ''ocid1.compartment.1''),
            CallListImages (listImagesRequest ''ocid1.compartment.1'' None),
            CallLaunchInstance emptyLaunchInstanceRequest])
   \<and> getImageID noImages okClient ''ocid1.compartment.1'' ''nope'' [] =
     Some (Return (None, Some (noSuchImage ''nope'')),
           [CallListImages (listImagesRequest ''ocid1.compartment.1'' None)])
   \<and> CreateInstance noImages okClient (okDriver\<lparr>Image := ''nope'', IsRover := True\<rparr>)
       ''ssh-rsa AAAA'' [] =
     Some (Return ([], Some (Error ''400 MissingParameter compartmentId'')),
           [CallListImages (listImagesRequest ''ocid1.compartment.1'' None),
            CallLaunchInstance emptyLaunchInstanceRequest])"
proof (intro conjI)
  show "CreateInstance noImages okClient (okDriver\<lparr>Image := ''nope''\<rparr>) ''ssh-rsa AAAA'' [] =
     Some (Return ([], Some (Error ''400 MissingParameter compartmentId'')),
           [CallListAvailabilityDomains (Some ''ocid1.compartment.1''),
            CallListImages (listImagesRequest ''ocid1.compartment.1'' None),
            CallLaunchInstance emptyLaunchInstanceRequest])"
    by (simp add: CreateInstance_def createReqForOCi_def okDriver_def getImageID_noImages
        Let_def noImages_sel emptyLaunchInstanceRequest_def)
  show "CreateInstance noImages okClient (okDriver\<lparr>Image := ''nope'', IsRover := True\<rparr>)
       ''ssh-rsa AAAA'' [] =
     Some (Return ([], Some (Error ''400 MissingParameter compartmentId'')),
           [CallListImages (listImagesRequest ''ocid1.compartment.1'' None),
            CallLaunchInstance emptyLaunchInstanceRequest])"
    by (simp add: CreateInstance_def createReqForRover_def okDriver_def getImageID_noImages
        Let_def noImages_sel emptyLaunchInstanceRequest_def)
qed (simp_all add: getImageID_noImages)

text \<open>
  Claim C2. The claim is that a failed polling read after a successful submission is
  returned as a non-nil error. The code run where the launch succeeds and the polling
  read fails: \<open>CreateInstance\<close> returns the empty ID together with a nil error.
\<close>

theorem CreateInstance_poll_error_not_returned:
  "CreateInstance pollFails okClient okDriver ''ssh-rsa AAAA'' [] =
     Some (Return ([], None),
           [CallListAvailabilityDomains (Some ''ocid1.compartment.1''),
            CallListImages (listImagesRequest ''ocid1.compartment.1'' None),
            CallLaunchInstance okLaunchRequest,
            CallGetInstance (pollRequest pollUntilRunning)])"
  by (simp add: CreateInstance_def createReqForOCi_def okDriver_def Let_def
      getImageID_pollFails pollFails_sel okSDK_sel okInstance_def pollRequest_def
      okLaunchRequest_def defaultNodeNamePfx_def)

subsection \<open>Availability-domain resolution\<close>

text \<open>
  Claim C7, as stated, fails: both listed domains contain the uppercased request
  \<open>ad\<close>, and the request that \<open>createReqForOCi\<close> builds names the first of them,
  not the last.
\<close>

theorem createReqForOCi_last_match_counterexample:
  "Contains ''xx-region-AD-1'' (ToUpper twoDomains ''ad'')
   \<and> Contains ''xx-region-AD-2'' (ToUpper twoDomains ''ad'')
   \<and> createReqForOCi twoDomains okClient ''oci-node-driver-node1'' ''ad''
        ''ocid1.compartment.1'' ''VM.Standard2.1'' ''Oracle-Linux-7.7'' ''ocid1.subnet.1''
        ''ssh-rsa AAAA'' [] =
      Some (Return (None, okLaunchRequest\<lparr>AvailabilityDomain_req := Some ''xx-region-AD-1''\<rparr>),
            [CallListAvailabilityDomains (Some ''ocid1.compartment.1''),
             CallListImages (listImagesRequest ''ocid1.compartment.1'' None)])"
  by (simp add: Contains_examples twoDomains_sel createReqForOCi_def getImageID_twoDomains
      okLaunchRequest_def del: Contains.simps)

text \<open>
  Claim C7, amended. When the domains are listed, all with a name, and the image is
  resolved, \<open>createReqForOCi\<close> returns a nil error and a request whose availability
  domain is the outcome of the scan: the request itself when no listed name contains
  the uppercased request; otherwise the scan takes the first listed name that contains
  it and goes on from there with that name as the request, so that a later name
  replaces it only when it contains the uppercased name already taken, and the first
  match stands when no later name does.
\<close>

theorem createReqForOCi_availability_domain:
  assumes listed:
      "ListAvailabilityDomains sdk tr (identityClient c) (Some compartmentID) = Inr ads"
    and names: "map AD_Name ads = map Some names"
    and resolved_image:
      "getImageID sdk c compartmentID nodeImageName
         (tr @ [CallListAvailabilityDomains (Some compartmentID)])
       = Some (Return (imageID, None), tr2)"
  shows "\<exists>resolved request.
           createReqForOCi sdk c displayName availabilityDomain compartmentID nodeShape
             nodeImageName nodeSubnetID authorizedKeys tr = Some (Return (None, request), tr2)
         \<and> AvailabilityDomain_req request = Some resolved
         \<and> ((\<forall>m \<in> set names. \<not> Contains m (ToUpper sdk availabilityDomain))
              \<longrightarrow> resolved = availabilityDomain)
         \<and> (\<forall>pre n post.
               names = pre @ n # post
               \<and> (\<forall>m \<in> set pre. \<not> Contains m (ToUpper sdk availabilityDomain))
               \<and> Contains n (ToUpper sdk availabilityDomain)
               \<longrightarrow> resolveAvailabilityDomain sdk (drop (Suc (length pre)) ads) n = Return resolved
                   \<and> ((\<forall>m \<in> set post. \<not> Contains m (ToUpper sdk n)) \<longrightarrow> resolved = n))"
proof -
  from resolve_returns [OF names] obtain resolved where
    r: "resolveAvailabilityDomain sdk ads availabilityDomain = Return resolved"
    by blast
  let ?request =
    "\<lparr>AvailabilityDomain_req = Some resolved, CompartmentId_req = Some compartmentID,
      Shape_req = Some nodeShape, SubnetId_req = Some nodeSubnetID,
      AssignPublicIp_req = None, FaultDomain_req = None, DisplayName_req = Some displayName,
      Metadata_req = launchMetadata authorizedKeys, ImageId_req = imageID,
      BootVolumeSizeInGBs_req = None, IsMonitoringDisabled_req = None\<rparr>"
  have run: "createReqForOCi sdk c displayName availabilityDomain compartmentID nodeShape
             nodeImageName nodeSubnetID authorizedKeys tr = Some (Return (None, ?request), tr2)"
    using listed r resolved_image by (simp add: createReqForOCi_def)
  have none: "(\<forall>m \<in> set names. \<not> Contains m (ToUpper sdk availabilityDomain))
              \<longrightarrow> resolved = availabilityDomain"
    using resolve_no_match [OF names] r by auto
  have first: "resolveAvailabilityDomain sdk (drop (Suc (length pre)) ads) n = Return resolved
               \<and> ((\<forall>m \<in> set post. \<not> Contains m (ToUpper sdk n)) \<longrightarrow> resolved = n)"
    if split: "names = pre @ n # post"
      and pre: "\<forall>m \<in> set pre. \<not> Contains m (ToUpper sdk availabilityDomain)"
      and n: "Contains n (ToUpper sdk availabilityDomain)"
    for pre n post
  proof
    from names split have "map AD_Name ads = map Some (pre @ n # post)" by simp
    from resolve_first_match [OF this pre n] r
    show rest: "resolveAvailabilityDomain sdk (drop (Suc (length pre)) ads) n = Return resolved"
      by simp
    have "map AD_Name (drop (Suc (length pre)) ads) = map Some post"
      using names split by (simp add: drop_map [symmetric])
    from resolve_no_match [OF this] rest
    show "(\<forall>m \<in> set post. \<not> Contains m (ToUpper sdk n)) \<longrightarrow> resolved = n"
      by auto
  qed
  have "AvailabilityDomain_req ?request = Some resolved" by simp
  with run none first show ?thesis by blast
qed

theorem createReqForOCi_availability_domain_witness:
  "ListAvailabilityDomains twoDomains [] (identityClient okClient)
      (Some ''ocid1.compartment.1'') = Inr twoDomainItems
   \<and> map AD_Name twoDomainItems = map Some twoDomainNames
   \<and> getImageID twoDomains okClient ''ocid1.compartment.1'' ''Oracle-Linux-7.7''
        ([] @ [CallListAvailabilityDomains (Some ''ocid1.compartment.1'')])
      = Some (Return (Some ''img2'', None), listedThenImage)
   \<and> list_all (\<lambda>m. \<not> Contains m (ToUpper twoDomains ''AD-9'')) twoDomainNames
   \<and> (\<exists>request.
         createReqForOCi twoDomains okClient ''oci-node-driver-node1'' ''AD-9''
           ''ocid1.compartment.1'' ''VM.Standard2.1'' ''Oracle-Linux-7.7'' ''ocid1.subnet.1''
           ''ssh-rsa AAAA'' [] = Some (Return (None, request), listedThenImage)
         \<and> AvailabilityDomain_req request = Some ''AD-9'')
   \<and> twoDomainNames = [] @ ''xx-region-AD-1'' # [''xx-region-AD-2'']
   \<and> Contains ''xx-region-AD-1'' (ToUpper twoDomains ''AD-1'')
   \<and> list_all (\<lambda>m. \<not> Contains m (ToUpper twoDomains ''xx-region-AD-1'')) [''xx-region-AD-2'']
   \<and> (\<exists>request.
         createReqForOCi twoDomains okClient ''oci-node-driver-node1'' ''AD-1''
           ''ocid1.compartment.1'' ''VM.Standard2.1'' ''Oracle-Linux-7.7'' ''ocid1.subnet.1''
           ''ssh-rsa AAAA'' [] = Some (Return (None, request), listedThenImage)
         \<and> AvailabilityDomain_req request = Some ''xx-region-AD-1'')"
proof -
  have listed: "ListAvailabilityDomains twoDomains [] (identityClient okClient)
      (Some ''ocid1.compartment.1'') = Inr twoDomainItems"
    by (simp add: twoDomains_sel twoDomainItems_def)
  have names: "map AD_Name twoDomainItems = map Some twoDomainNames"
    by (simp add: twoDomainItems_def twoDomainNames_def)
  have img: "getImageID twoDomains okClient ''ocid1.compartment.1'' ''Oracle-Linux-7.7''
        ([] @ [CallListAvailabilityDomains (Some ''ocid1.compartment.1'')])
      = Some (Return (Some ''img2'', None), listedThenImage)"
    by (simp add: getImageID_twoDomains listedThenImage_def)
  have all_unmatched: "list_all (\<lambda>m. \<not> Contains m (ToUpper twoDomains ''AD-9'')) twoDomainNames"
    by (simp add: twoDomainNames_def Contains_examples twoDomains_sel del: Contains.simps)
  then have unmatched: "\<forall>m \<in> set twoDomainNames. \<not> Contains m (ToUpper twoDomains ''AD-9'')"
    by (simp only: list_all_iff)
  have split: "twoDomainNames = [] @ ''xx-region-AD-1'' # [''xx-region-AD-2'']"
    by (simp add: twoDomainNames_def)
  have first: "Contains ''xx-region-AD-1'' (ToUpper twoDomains ''AD-1'')"
    by (simp add: Contains_examples twoDomains_sel del: Contains.simps)
  have all_later:
    "list_all (\<lambda>m. \<not> Contains m (ToUpper twoDomains ''xx-region-AD-1'')) [''xx-region-AD-2'']"
    by (simp add: Contains_examples twoDomains_sel del: Contains.simps)
  then have later:
    "\<forall>m \<in> set [''xx-region-AD-2'']. \<not> Contains m (ToUpper twoDomains ''xx-region-AD-1'')"
    by (simp only: list_all_iff)
  have fallback: "\<exists>request.
         createReqForOCi twoDomains okClient ''oci-node-driver-node1'' ''AD-9''
           ''ocid1.compartment.1'' ''VM.Standard2.1'' ''Oracle-Linux-7.7'' ''ocid1.subnet.1''
           ''ssh-rsa AAAA'' [] = Some (Return (None, request), listedThenImage)
         \<and> AvailabilityDomain_req request = Some ''AD-9''"
  proof -
    from createReqForOCi_availability_domain
           [OF listed names img, of "''oci-node-driver-node1''" "''AD-9''"
              "''VM.Standard2.1''" "''ocid1.subnet.1''" "''ssh-rsa AAAA''"]
    obtain resolved request where
      run: "createReqForOCi twoDomains okClient ''oci-node-driver-node1'' ''AD-9''
           ''ocid1.compartment.1'' ''VM.Standard2.1'' ''Oracle-Linux-7.7'' ''ocid1.subnet.1''
           ''ssh-rsa AAAA'' [] = Some (Return (None, request), listedThenImage)"
      and ad: "AvailabilityDomain_req request = Some resolved"
      and none: "(\<forall>m \<in> set twoDomainNames. \<not> Contains m (ToUpper twoDomains ''AD-9''))
                  \<longrightarrow> resolved = ''AD-9''"
      by (elim exE conjE)
    from none unmatched have "resolved = ''AD-9''" by (rule mp)
    with run ad show ?thesis by (intro exI conjI) simp_all
  qed
  have resolved: "\<exists>request.
         createReqForOCi twoDomains okClient ''oci-node-driver-node1'' ''AD-1''
           ''ocid1.compartment.1'' ''VM.Standard2.1'' ''Oracle-Linux-7.7'' ''ocid1.subnet.1''
           ''ssh-rsa AAAA'' [] = Some (Return (None, request), listedThenImage)
         \<and> AvailabilityDomain_req request = Some ''xx-region-AD-1''"
  proof -
    from createReqForOCi_availability_domain
           [OF listed names img, of "''oci-node-driver-node1''" "''AD-1''"
              "''VM.Standard2.1''" "''ocid1.subnet.1''" "''ssh-rsa AAAA''"]
    obtain resolved request where
      run: "createReqForOCi twoDomains okClient ''oci-node-driver-node1'' ''AD-1''
           ''ocid1.compartment.1'' ''VM.Standard2.1'' ''Oracle-Linux-7.7'' ''ocid1.subnet.1''
           ''ssh-rsa AAAA'' [] = Some (Return (None, request), listedThenImage)"
      and ad: "AvailabilityDomain_req request = Some resolved"
      and scan: "\<forall>pre n post.
               twoDomainNames = pre @ n # post
               \<and> (\<forall>m \<in> set pre. \<not> Contains m (ToUpper twoDomains ''AD-1''))
               \<and> Contains n (ToUpper twoDomains ''AD-1'')
               \<longrightarrow> resolveAvailabilityDomain twoDomains (drop (Suc (length pre)) twoDomainItems) n
                     = Return resolved
                   \<and> ((\<forall>m \<in> set post. \<not> Contains m (ToUpper twoDomains n)) \<longrightarrow> resolved = n)"
      by (elim exE conjE)
    have "\<forall>m \<in> set []. \<not> Contains m (ToUpper twoDomains ''AD-1'')" by simp
    with split first scan [rule_format, of "[]" "''xx-region-AD-1''" "[''xx-region-AD-2'']"]
    have "(\<forall>m \<in> set [''xx-region-AD-2'']. \<not> Contains m (ToUpper twoDomains ''xx-region-AD-1''))
            \<longrightarrow> resolved = ''xx-region-AD-1''"
      by (simp del: Contains.simps)
    from this later have "resolved = ''xx-region-AD-1''" by (rule mp)
    with run ad show ?thesis by (intro exI conjI) simp_all
  qed
  from listed names img all_unmatched fallback split first all_later resolved
  show ?thesis by (intro conjI)
qed

subsection \<open>Driver facade\<close>

text \<open>
  Claim C9. In rover mode \<open>PreCreateCheck\<close> returns nil at once, with no call made.
  Otherwise, once the client is built, its result is that of looking up the image named
  \<open>Oracle-Linux-7.7\<close> in the node compartment: the lookup's error when it fails, nil
  when it finds a non-empty ID. The image configured in the driver plays no part: the
  check gives the same result whatever the field \<open>Image\<close> holds.
\<close>

theorem PreCreateCheck_default_image:
  "(IsRover d \<longrightarrow> PreCreateCheck sdk d tr = Some (Return None, tr))
   \<and> PreCreateCheck sdk (d\<lparr>Image := configured\<rparr>) tr = PreCreateCheck sdk d tr
   \<and> (\<not> IsRover d \<and> initOCIClient sdk d tr = (Return (oci, None), tr1) \<longrightarrow>
        (getImageID sdk oci (NodeCompartmentID d) ''Oracle-Linux-7.7'' tr1
           = Some (Return (ident, Some err), tr2)
         \<longrightarrow> PreCreateCheck sdk d tr = Some (Return (Some err), tr2))
      \<and> (getImageID sdk oci (NodeCompartmentID d) ''Oracle-Linux-7.7'' tr1
           = Some (Return (Some img, None), tr2) \<and> img \<noteq> []
         \<longrightarrow> PreCreateCheck sdk d tr = Some (Return None, tr2)))"
  by (simp add: PreCreateCheck_Image)
    (simp add: PreCreateCheck_def defaultImage_def split: option.splits)

theorem PreCreateCheck_default_image_witness:
  "IsRover (okDriver\<lparr>IsRover := True\<rparr>)
   \<and> PreCreateCheck okSDK (okDriver\<lparr>IsRover := True\<rparr>) [] = Some (Return None, [])
   \<and> \<not> IsRover okDriver
   \<and> initOCIClient okSDK okDriver [] = (Return (okClient, None), okInitTrace)
   \<and> getImageID okSDK okClient (NodeCompartmentID okDriver) ''Oracle-Linux-7.7'' okInitTrace
       = Some (Return (None, Some (noSuchImage ''Oracle-Linux-7.7'')),
               okInitTrace @ [CallListImages (listImagesRequest ''ocid1.compartment.1'' None)])
   \<and> PreCreateCheck okSDK okDriver [] =
       Some (Return (Some (noSuchImage ''Oracle-Linux-7.7'')),
             okInitTrace @ [CallListImages (listImagesRequest ''ocid1.compartment.1'' None)])
   \<and> initOCIClient imagesListed okDriver [] = (Return (okClient, None), okInitTrace)
   \<and> getImageID imagesListed okClient (NodeCompartmentID okDriver) ''Oracle-Linux-7.7''
         okInitTrace
       = Some (Return (Some ''img2'', None),
               okInitTrace @ [CallListImages (listImagesRequest ''ocid1.compartment.1'' None)])
   \<and> ''img2'' \<noteq> []
   \<and> PreCreateCheck imagesListed (okDriver\<lparr>Image := ''Ubuntu''\<rparr>) [] =
       Some (Return None,
             okInitTrace @ [CallListImages (listImagesRequest ''ocid1.compartment.1'' None)])"
proof -
  have rover: "IsRover (okDriver\<lparr>IsRover := True\<rparr>)" by simp
  have regular: "\<not> IsRover okDriver" by (simp add: okDriver_def)
  have cid: "NodeCompartmentID okDriver = ''ocid1.compartment.1''" by (simp add: okDriver_def)
  have missing:
    "getImageID okSDK okClient (NodeCompartmentID okDriver) ''Oracle-Linux-7.7'' okInitTrace
       = Some (Return (None, Some (noSuchImage ''Oracle-Linux-7.7'')),
               okInitTrace @ [CallListImages (listImagesRequest ''ocid1.compartment.1'' None)])"
    by (simp only: cid getImageID_okSDK_default)
  have found:
    "getImageID imagesListed okClient (NodeCompartmentID okDriver) ''Oracle-Linux-7.7''
         okInitTrace
       = Some (Return (Some ''img2'', None),
               okInitTrace @ [CallListImages (listImagesRequest ''ocid1.compartment.1'' None)])"
    by (simp only: cid getImageID_imagesListed)
  have ne: "''img2'' \<noteq> []" by simp
  note rover_case =
    PreCreateCheck_default_image
      [where d = "okDriver\<lparr>IsRover := True\<rparr>" and sdk = okSDK and tr = "[]",
       THEN conjunct1, rule_format, OF rover]
  note error_case =
    PreCreateCheck_default_image
      [where d = okDriver and sdk = okSDK and tr = "[]" and oci = okClient
         and ?tr1.0 = okInitTrace, THEN conjunct2, THEN conjunct2,
       rule_format, OF conjI [OF regular initOCIClient_ok], THEN conjunct1, rule_format,
       OF missing]
  note found_case =
    PreCreateCheck_default_image
      [where d = okDriver and sdk = imagesListed and tr = "[]" and oci = okClient
         and ?tr1.0 = okInitTrace, THEN conjunct2, THEN conjunct2,
       rule_format, OF conjI [OF regular initOCIClient_imagesListed], THEN conjunct2,
       rule_format, OF conjI [OF found ne]]
  note same =
    PreCreateCheck_default_image
      [where d = okDriver and sdk = imagesListed and configured = "''Ubuntu''" and tr = "[]",
       THEN conjunct2, THEN conjunct1]
  from found_case same have other_image:
    "PreCreateCheck imagesListed (okDriver\<lparr>Image := ''Ubuntu''\<rparr>) [] =
       Some (Return None,
             okInitTrace @ [CallListImages (listImagesRequest ''ocid1.compartment.1'' None)])"
    by (rule ssubst [where P = "\<lambda>x. x = _", rotated])
  from rover rover_case regular initOCIClient_ok missing error_case
    initOCIClient_imagesListed found ne other_image
  show ?thesis by (intro conjI)
qed

text \<open>
  Claim C10. \<open>GetSSHPort\<close> returns 22 and \<open>GetSSHUsername\<close> returns \<open>opc\<close> whatever
  the fields \<open>SSHPort\<close> and \<open>SSHUser\<close> hold, and whenever \<open>GetIP\<close> gives a
  non-empty address, \<open>GetURL\<close> returns \<open>tcp://\<close>, the address and the port 2376,
  whatever the field \<open>DockerPort\<close> holds.
\<close>

theorem fixed_ssh_and_docker_port:
  "GetSSHPort (d\<lparr>SSHPort := sshPort\<rparr>) = (22, None)
   \<and> GetSSHUsername (d\<lparr>SSHUser := sshUser\<rparr>) = ''opc''
   \<and> (GetIP sdk d tr = (Return (ip, None), d', tr') \<and> ip \<noteq> [] \<longrightarrow>
        GetURL sdk (d\<lparr>DockerPort := dockerPort\<rparr>) tr =
          (Return (''tcp://'' @ ip @ '':2376'', None), d'\<lparr>DockerPort := dockerPort\<rparr>, tr'))"
  by (simp add: GetSSHPort_def GetSSHUsername_def defaultSSHPort_def defaultSSHUser_def
      GetURL_def GetIP_DockerPort format_defaultDockerPort)

theorem fixed_ssh_and_docker_port_witness:
  "GetSSHPort (okDriver\<lparr>SSHPort := 2222\<rparr>) = (22, None)
   \<and> GetSSHUsername (okDriver\<lparr>SSHUser := ''ubuntu''\<rparr>) = ''opc''
   \<and> GetIP withVnic okDriver [] =
        (Return (''1.2.3.4'', None), okDriver\<lparr>IPAddress := ''1.2.3.4''\<rparr>, vnicTrace)
   \<and> ''1.2.3.4'' \<noteq> []
   \<and> GetURL withVnic (okDriver\<lparr>DockerPort := 9999\<rparr>) [] =
        (Return (''tcp://1.2.3.4:2376'', None),
         okDriver\<lparr>IPAddress := ''1.2.3.4'', DockerPort := 9999\<rparr>, vnicTrace)"
proof -
  have ip: "GetIP withVnic okDriver [] =
        (Return (''1.2.3.4'', None), okDriver\<lparr>IPAddress := ''1.2.3.4''\<rparr>, vnicTrace)"
    by (simp add: GetIP_def initOCIClient_withVnic)
      (simp add: GetInstanceIP_def withVnic_def okDriver_def vnicTrace_def)
  have ne: "''1.2.3.4'' \<noteq> []" by simp
  note all = fixed_ssh_and_docker_port
      [where d = okDriver and sshPort = 2222 and sshUser = "''ubuntu''" and sdk = withVnic
         and tr = "[]" and ip = "''1.2.3.4''" and d' = "okDriver\<lparr>IPAddress := ''1.2.3.4''\<rparr>"
         and tr' = vnicTrace and dockerPort = 9999]
  from all [THEN conjunct2, THEN conjunct2, rule_format, OF conjI [OF ip ne]]
  have url: "GetURL withVnic (okDriver\<lparr>DockerPort := 9999\<rparr>) [] =
        (Return (''tcp://1.2.3.4:2376'', None),
         okDriver\<lparr>IPAddress := ''1.2.3.4'', DockerPort := 9999\<rparr>, vnicTrace)"
    by simp
  from all [THEN conjunct1] all [THEN conjunct2, THEN conjunct1] ip ne url
  show ?thesis by (intro conjI)
qed

end
